theory Spec2Isabelle
  imports Main "HOL-Library.Sublist"
begin

section \<open>Python values shared by the modules\<close>

text \<open>
  Strings are \<^typ>\<open>string\<close>. The exceptions the modelled functions raise are values of
  \<open>py_error\<close>; a function that can raise returns \<open>py_error + 'a\<close>, with \<open>Inl\<close> the
  exception that reaches the caller.
\<close>

datatype py_error =
    Exception string
  | KeyError int
  | AttributeError
  | ValueError
  | IndexError
  | NoSuchTableError string

text \<open>\<open>sep.join(items)\<close> of Python.\<close>

fun py_join :: "string \<Rightarrow> string list \<Rightarrow> string" where
  "py_join sep [] = []"
| "py_join sep [x] = x"
| "py_join sep (x # y # ys) = x @ sep @ py_join sep (y # ys)"

text \<open>
  \<open>s.lower()\<close> on the ASCII letters. A character outside ASCII is several bytes of a
  \<^typ>\<open>string\<close>, all of them above 127 and left as they are. The DDL compiler only
  compares the lowered text with \<open>'random'\<close>, which no text with such a character lowers
  to, and \<open>get_columns\<close> is modelled with \<open>lower\<close> on ASCII texts only.
\<close>

definition lower_char :: "char \<Rightarrow> char" where
  "lower_char c =
     (let n = (of_char c :: nat) in if 65 \<le> n \<and> n \<le> 90 then char_of (n + 32) else c)"

definition lower :: "string \<Rightarrow> string" where
  "lower s = map lower_char s"

text \<open>Decimal text of an integer, as \<open>str\<close> and \<open>'{}'.format\<close> print it.\<close>

definition digit_char :: "nat \<Rightarrow> char" where
  "digit_char d = ''0123456789'' ! (d mod 10)"




text \<open>
  A text all of whose characters are ASCII. On such a text the digits that \<open>\d\<close> matches
  and \<open>int\<close> reads are \<open>0\<close> to \<open>9\<close>, and \<open>lower\<close> changes the letters \<open>A\<close> to \<open>Z\<close> only.
\<close>

definition is_ascii :: "string \<Rightarrow> bool" where
  "is_ascii s = list_all (\<lambda>c. (of_char c :: nat) < 128) s"

definition is_digit :: "char \<Rightarrow> bool" where
  "is_digit c = (let n = (of_char c :: nat) in 48 \<le> n \<and> n \<le> 57)"

definition digit_val :: "char \<Rightarrow> nat" where
  "digit_val c = (of_char c :: nat) - 48"

definition int_of_digits :: "string \<Rightarrow> nat" where
  "int_of_digits s = foldl (\<lambda>a c. 10 * a + digit_val c) 0 s"

text \<open>
  What the Python runtime fixes and the repository does not:
  \<^item> \<open>int_max_str_digits\<close>: the limit \<open>sys.int_max_str_digits\<close> on the number of digits
    \<open>int\<close> converts, \<open>0\<close> when the runtime has no limit (the default is 4300 where the
    limit exists, and the runtime accepts no limit between 1 and 639);
  \<^item> \<open>unicode_numeric\<close>: for a format text with a character outside ASCII, what lowering
    it, matching the pattern of \<open>get_columns\<close> and converting the two groups give by the
    Unicode tables of the runtime: the exception raised, or precision and scale.
\<close>

record runtime =
  int_max_str_digits :: nat
  unicode_numeric :: "string \<Rightarrow> py_error + (int \<times> int)"

text \<open>
  \<open>int(s)\<close> on a non-empty run of ASCII digits: ValueError when the run is longer than the
  limit, its value otherwise.
\<close>

definition py_int :: "runtime \<Rightarrow> string \<Rightarrow> py_error + int" where
  "py_int rt s =
     (if 0 < int_max_str_digits rt \<and> int_max_str_digits rt < length s then Inl ValueError
      else Inr (int (int_of_digits s)))"

subsection \<open>Decimal notation\<close>

text \<open>
  The notions of decimal notation that the statements below refer to. They are written
  from the notation, not from the code: the number a run of digits denotes is the sum of
  its digits times the powers of ten; the digits of a natural number are a non-empty run of
  \<open>0\<close> to \<open>9\<close> that denotes it and has no leading zero; the decimal text of an integer is
  the digits of its absolute value, after a minus sign when it is negative.
\<close>

definition decimal_value :: "string \<Rightarrow> nat" where
  "decimal_value ds =
     (\<Sum>i<length ds. ((of_char (ds ! i) :: nat) - 48) * 10 ^ (length ds - Suc i))"

definition decimal_digits :: "string \<Rightarrow> nat \<Rightarrow> bool" where
  "decimal_digits ds n =
     (ds \<noteq> [] \<and> set ds \<subseteq> set ''0123456789''
      \<and> (1 < length ds \<longrightarrow> hd ds \<noteq> CHR ''0'')
      \<and> decimal_value ds = n)"

definition decimal_text :: "string \<Rightarrow> int \<Rightarrow> bool" where
  "decimal_text t i =
     (if i < 0
      then (case t of [] \<Rightarrow> False | c # ds \<Rightarrow> c = CHR ''-'' \<and> decimal_digits ds (nat (- i)))
      else decimal_digits t (nat i))"


section \<open>tools/misc.py\<close>

text \<open>
  \<^verbatim>\<open>
  def gen_insert(tablename, columns):
      return "insert into "+tablename+" ("+ ",\n".join(["'"+i+"'" for i in columns])
             +") values ("+ ",\n".join(["'"+i+"'" for i in columns])+")"
  \<close>
\<close>

definition gen_insert :: "string \<Rightarrow> string list \<Rightarrow> string" where
  "gen_insert tablename columns =
     ''insert into '' @ tablename @ '' (''
       @ py_join '',\<newline>'' (map (\<lambda>i. [CHR 0x27] @ i @ [CHR 0x27]) columns)
       @ '') values (''
       @ py_join '',\<newline>'' (map (\<lambda>i. [CHR 0x27] @ i @ [CHR 0x27]) columns)
       @ '')''"


section \<open>core/context.py\<close>

text \<open>
  A class object: its identity and its qualified name. Two classes are the same key of a
  dictionary when they are the same object, whatever their names; \<open>str\<close> prints a class
  as \<open><class 'qualified.name'>\<close>.

  A Config of the configuration module: its runtime class, its key and its optional inline
  password.
\<close>

record py_type =
  class_id :: nat
  class_name :: string

definition str_type :: "py_type \<Rightarrow> string" where
  "str_type t = ''<class '' @ [CHR 0x27] @ class_name t @ [CHR 0x27] @ ''>''"

record config =
  runtime_type :: py_type
  key :: string
  password :: "string option"

text \<open>\<open>Context.__init__\<close> keeps the config and a copy of its key; a subclass of Context is
  an extension of the record.\<close>

record context_obj =
  ctx_config :: config
  ctx_config_key :: string

definition Context_init :: "config \<Rightarrow> context_obj" where
  "Context_init cfg = \<lparr>ctx_config = cfg, ctx_config_key = key cfg\<rparr>"

text \<open>
  \<open>cm.get_password\<close> and \<open>cm.get_config\<close> belong to the configuration module, which is a
  collaborator: they are parameters here. Either may raise, and \<open>cm.get_password\<close> returns
  a Python value that may be \<open>None\<close>.

  \<^verbatim>\<open>
  def get_password(self):
      if self.config.password is None:
          return cm.get_password(self.config.key)
  \<close>
  A Python function that falls off its end returns \<open>None\<close>.
\<close>

definition get_password ::
  "(string \<Rightarrow> py_error + string option) \<Rightarrow> 'a context_obj_scheme \<Rightarrow> py_error + string option" where
  "get_password cm_get_password self =
     (if password (ctx_config self) = None
      then cm_get_password (key (ctx_config self))
      else Inr None)"

text \<open>
  The registry \<open>_context_factory_map\<close>: a dictionary from config classes to factories. A
  factory is known by what its \<open>create_from_config\<close> does.

  \<^verbatim>\<open>
  def get(config_key):
      config = cm.get_config(config_key)
      if type(config) not in _context_factory_map:
          raise Exception("Context factory for " + str(type(config)) + " not configured.")
      factory = _context_factory_map[type(config)];
      return factory.create_from_config(config)

  def register_context_factory(config_type, context_factory_type):
      logging.info(...)
      _context_factory_map[config_type] = context_factory_type
  \<close>
\<close>

type_synonym 'ctx factory = "config \<Rightarrow> py_error + 'ctx"

type_synonym 'ctx factory_map = "py_type \<rightharpoonup> 'ctx factory"

definition register_context_factory ::
  "py_type \<Rightarrow> 'ctx factory \<Rightarrow> 'ctx factory_map \<Rightarrow> 'ctx factory_map" where
  "register_context_factory config_type context_factory_type m =
     m(config_type \<mapsto> context_factory_type)"

definition get ::
  "(string \<Rightarrow> py_error + config) \<Rightarrow> 'ctx factory_map \<Rightarrow> string \<Rightarrow> py_error + 'ctx" where
  "get cm_get_config m config_key =
     (case cm_get_config config_key of
        Inl e \<Rightarrow> Inl e
      | Inr cfg \<Rightarrow>
          (case m (runtime_type cfg) of
             None \<Rightarrow> Inl (Exception (''Context factory for '' @ str_type (runtime_type cfg)
                                      @ '' not configured.''))
           | Some factory \<Rightarrow> factory cfg))"

text \<open>A run of registrations, in order.\<close>

fun register_all :: "(py_type \<times> 'ctx factory) list \<Rightarrow> 'ctx factory_map \<Rightarrow> 'ctx factory_map" where
  "register_all [] m = m"
| "register_all ((t, f) # regs) m = register_all regs (register_context_factory t f m)"


section \<open>data/sqlalchemy/netezza_dialect.py\<close>

subsection \<open>\<open>NetezzaCompiler.limit_clause\<close>\<close>

text \<open>
  \<^verbatim>\<open>
  def limit_clause(self, select):
      text = ""
      if select._limit is not None:
          text += " \n LIMIT {limit}".format(limit=int(select._limit))
      if select._offset is not None:
          if select._limit is None:
              text += " \n LIMIT ALL"
          text += " OFFSET {offset}".format(offset=int(select._offset))
      return text
  \<close>
  Of a select only its integer limit and offset are read; each may be \<open>None\<close>.
\<close>

record select =
  limit :: "int option"
  offset :: "int option"


subsection \<open>\<open>DistributeOn\<close> and \<open>NetezzaDDLCompiler.post_create_table\<close>\<close>

text \<open>
  \<^verbatim>\<open>
  class DistributeOn(SchemaItem):
      def __init__(self, *column_names):
          self.column_names = column_names if column_names else ('RANDOM',)

  def post_create_table(self, table):
      clause = ' DISTRIBUTE ON {columns}'
      if hasattr(table, 'distribute_on') and \
         table.distribute_on.column_names[0].lower() != 'random':
          column_list = ','.join(table.distribute_on.column_names)
          columns = '({})'.format(column_list)
      else:
          columns = 'RANDOM'
      return clause.format(columns=columns)
  \<close>
  A table has the attribute \<open>distribute_on\<close> once a DistributeOn item was attached to it
  (\<open>_set_parent\<close>); \<open>None\<close> below is the table without the attribute.
\<close>

record distribute_on_item =
  column_names :: "string list"

definition DistributeOn :: "string list \<Rightarrow> distribute_on_item" where
  "DistributeOn names = \<lparr>column_names = (if names \<noteq> [] then names else [''RANDOM''])\<rparr>"

record table =
  table_distribute_on :: "distribute_on_item option"

definition post_create_table :: "table \<Rightarrow> py_error + string" where
  "post_create_table tbl =
     (let clause = '' DISTRIBUTE ON '' in
      case table_distribute_on tbl of
        None \<Rightarrow> Inr (clause @ ''RANDOM'')
      | Some d \<Rightarrow>
          (case column_names d of
             [] \<Rightarrow> Inl IndexError
           | c0 # _ \<Rightarrow>
               if lower c0 \<noteq> ''random''
               then Inr (clause @ ''('' @ py_join '','' (column_names d) @ '')'')
               else Inr (clause @ ''RANDOM'')))"

subsection \<open>\<open>CreateTableAs\<close>\<close>

text \<open>
  \<^verbatim>\<open>
  def __init__(self, new_table_name, selectable, temporary=False, distribute_on='random'):
      '''Distribute_on may be a tuple of column names'''
      ...
      self.distribute_on = distribute_on

  def distribute_clause(self):
      if self.distribute_on.lower() != 'random':
          column_list = ','.join(self.distribute_on)
          return '({})'.format(column_list)
      else:
          return 'RANDOM'
  \<close>
  \<open>distribute_on\<close> is a Python value: a string (the default) or a tuple or list of column
  names. Only a string has the method \<open>lower\<close>; on a tuple or a list the attribute lookup
  raises AttributeError. Joining a string joins its characters.
\<close>

datatype py_value = PyStr string | PyTuple "string list"

record create_table_as =
  new_table_name :: string
  temporary :: bool
  distribute_on :: py_value

definition distribute_clause :: "create_table_as \<Rightarrow> py_error + string" where
  "distribute_clause self =
     (case distribute_on self of
        PyTuple names \<Rightarrow> Inl AttributeError
      | PyStr s \<Rightarrow>
          if lower s \<noteq> ''random''
          then Inr (''('' @ py_join '','' (map (\<lambda>c. [c]) s) @ '')'')
          else Inr ''RANDOM'')"

text \<open>
  \<open>visit_create_table_as\<close> puts the clause after \<open>DISTRIBUTE ON\<close>; the text of the select
  comes from the SQL compiler of the library and is a parameter.
\<close>

definition visit_create_table_as :: "create_table_as \<Rightarrow> string \<Rightarrow> py_error + string" where
  "visit_create_table_as element select_text =
     (case distribute_clause element of
        Inl e \<Rightarrow> Inl e
      | Inr distribute \<Rightarrow>
          Inr (''\<newline>        CREATE '' @ (if temporary element then ''TEMP'' else [])
               @ '' TABLE '' @ new_table_name element @ '' AS (\<newline>        ''
               @ select_text @ ''\<newline>        ) DISTRIBUTE ON '' @ distribute @ ''\<newline>    ''))"

subsection \<open>\<open>oid_datatype_map\<close> and \<open>NetezzaODBC.get_columns\<close>\<close>

text \<open>
  The column type classes the table names. \<open>SA_TEXT\<close> is \<open>sqltypes.TEXT\<close> of the
  library (the table does not use the \<open>TEXT\<close> class of the dialect) and \<open>CHAR_type\<close> is
  \<open>sqltypes.CHAR\<close>.
\<close>

datatype coltype_class =
    Boolean | CHAR_type | NAME | BigInteger | SmallInteger | Integer | SA_TEXT | OID
  | REAL | DOUBLE_PRECISION | ABSTIME | String | Date | TIME | TIMESTAMP | INTERVAL
  | Numeric | BYTEINT | NCHAR | NVARCHAR | ST_GEOMETRY | VARBINARY

text \<open>
  \<^verbatim>\<open>
  # Maps type ids to sqlalchemy types, plus whether they have variable precision
  oid_datatype_map = {
      16: (sqltypes.Boolean, False),      18: (sqltypes.CHAR, False),
      19: (NAME, False),                  20: (sqltypes.BigInteger, False),
      21: (sqltypes.SmallInteger, False), 23: (sqltypes.Integer, False),
      25: (sqltypes.TEXT, False),         26: (OID, False),
      700: (sqltypes.REAL, False),        701: (DOUBLE_PRECISION, False),
      702: (ABSTIME, False),              1042: (sqltypes.CHAR, True),
      1043: (sqltypes.String, True),      1082: (sqltypes.Date, False),
      1083: (TIME, False),                1184: (TIMESTAMP, False),
      1186: (INTERVAL, False),            1266: (TIMESTAMP, False),
      1700: (sqltypes.Numeric, False),    2500: (BYTEINT, False),
      2522: (sqltypes.NCHAR, True),       2530: (sqltypes.NVARCHAR, True),
      2552: (ST_GEOMETRY, True),          2568: (sqltypes.VARBINARY, True),
  }
  \<close>
\<close>

definition oid_datatype_list :: "(int \<times> coltype_class \<times> bool) list" where
  "oid_datatype_list =
     [(16, Boolean, False), (18, CHAR_type, False), (19, NAME, False), (20, BigInteger, False),
      (21, SmallInteger, False), (23, Integer, False), (25, SA_TEXT, False), (26, OID, False),
      (700, REAL, False), (701, DOUBLE_PRECISION, False), (702, ABSTIME, False),
      (1042, CHAR_type, True), (1043, String, True), (1082, Date, False), (1083, TIME, False),
      (1184, TIMESTAMP, False), (1186, INTERVAL, False), (1266, TIMESTAMP, False),
      (1700, Numeric, False), (2500, BYTEINT, False), (2522, NCHAR, True),
      (2530, NVARCHAR, True), (2552, ST_GEOMETRY, True), (2568, VARBINARY, True)]"

definition oid_datatype_map :: "int \<rightharpoonup> coltype_class \<times> bool" where
  "oid_datatype_map = map_of oid_datatype_list"

text \<open>
  \<open>re.match(r'numeric\((\d+),(\d+)\)', s)\<close>: the pattern is tried at the start of \<open>s\<close>
  only, and what follows the closing bracket is free. A group \<open>\d+\<close> takes the longest run
  of digits; giving some back never helps, since the next character of the pattern is not
  a digit. The result is the two groups, or \<open>None\<close>.
\<close>

definition re_match_numeric :: "string \<Rightarrow> (string \<times> string) option" where
  "re_match_numeric s =
     (if take 8 s = ''numeric('' then
        (let r1 = drop 8 s; p = takeWhile is_digit r1; r2 = dropWhile is_digit r1 in
         if p = [] then None
         else (case r2 of
                 [] \<Rightarrow> None
               | c # r3 \<Rightarrow>
                   if c \<noteq> CHR '','' then None
                   else (let sc = takeWhile is_digit r3; r4 = dropWhile is_digit r3 in
                         if sc = [] then None
                         else (case r4 of
                                 [] \<Rightarrow> None
                               | d # _ \<Rightarrow> if d = CHR '')'' then Some (p, sc) else None))))
      else None)"

text \<open>
  The form \<open>numeric(p,s)\<close> of a format text \<open>f\<close>, as the statements below refer to it:
  \<open>f\<close> is a head \<open>h\<close> that spells \<open>numeric(\<close> in letters of either case, a non-empty run of
  digits \<open>p\<close>, a comma, a non-empty run of digits \<open>s\<close>, a closing bracket and any ASCII
  text \<open>rest\<close>.
\<close>

definition numeric_text :: "string \<Rightarrow> string \<Rightarrow> string \<Rightarrow> string \<Rightarrow> string \<Rightarrow> bool" where
  "numeric_text f h p s rest =
     (f = h @ p @ '','' @ s @ '')'' @ rest
      \<and> list_all2 (\<lambda>c (l, u). c = l \<or> c = u) h (zip ''numeric('' ''NUMERIC('')
      \<and> p \<noteq> [] \<and> s \<noteq> []
      \<and> set p \<subseteq> set ''0123456789'' \<and> set s \<subseteq> set ''0123456789''
      \<and> list_all (\<lambda>c. (of_char c :: nat) < 128) rest)"

text \<open>
  A row of the column query: \<open>name, typeid, nullable, length, format_type\<close>. The length
  and the format text come from the catalog and may be NULL (\<open>None\<close>).

  A column type is the class with the arguments its constructor was called with.
\<close>

record column_row =
  row_name :: string
  row_typeid :: int
  row_nullable :: bool
  row_length :: "int option"
  row_format_type :: "string option"

datatype coltype = Coltype coltype_class "int option list"

record column =
  col_name :: string
  col_type :: coltype
  col_nullable :: bool

text \<open>
  The body of the loop up to the value of \<open>coltype\<close>:
  \<^verbatim>\<open>
  coltype_class, has_length = oid_datatype_map[typeid]
  if coltype_class is sqltypes.Numeric:
      precision, scale = re.match(
          r'numeric\((\d+),(\d+)\)',format_type.lower()).groups()
      coltype = coltype_class(int(precision), int(scale))
  elif has_length:
      coltype = coltype_class(length)
  else:
      coltype = coltype_class()
  \<close>
  A type id that is not a key raises KeyError; \<open>None.lower()\<close> and \<open>None.groups()\<close>
  raise AttributeError; \<open>int\<close> raises ValueError on a run of digits beyond the limit of the
  runtime. \<open>int(precision)\<close> is evaluated before \<open>int(scale)\<close>. On a format text with a
  character outside ASCII the outcome is the one the runtime gives.
\<close>

definition coltype_of_row :: "runtime \<Rightarrow> column_row \<Rightarrow> py_error + coltype" where
  "coltype_of_row rt r =
     (case oid_datatype_map (row_typeid r) of
        None \<Rightarrow> Inl (KeyError (row_typeid r))
      | Some (coltype_class, has_length) \<Rightarrow>
          if coltype_class = Numeric then
            (case row_format_type r of
               None \<Rightarrow> Inl AttributeError
             | Some format_type \<Rightarrow>
                 if is_ascii format_type then
                   (case re_match_numeric (lower format_type) of
                      None \<Rightarrow> Inl AttributeError
                    | Some (precision, scale) \<Rightarrow>
                        (case py_int rt precision of
                           Inl e \<Rightarrow> Inl e
                         | Inr p \<Rightarrow>
                             (case py_int rt scale of
                                Inl e \<Rightarrow> Inl e
                              | Inr s \<Rightarrow> Inr (Coltype coltype_class [Some p, Some s]))))
                 else
                   (case unicode_numeric rt format_type of
                      Inl e \<Rightarrow> Inl e
                    | Inr (p, s) \<Rightarrow> Inr (Coltype coltype_class [Some p, Some s])))
          else if has_length then Inr (Coltype coltype_class [row_length r])
          else Inr (Coltype coltype_class []))"

text \<open>
  The loop of \<open>get_columns\<close> over the fetched rows, with the list \<open>columns\<close> it appends
  to; an exception in the body leaves the function.
  \<^verbatim>\<open>
  columns = []
  for name, typeid, nullable, length, format_type in rows:
      ...
      columns.append({'name': name, 'type': coltype, 'nullable': nullable})
  return columns
  \<close>
\<close>

fun format_columns ::
  "runtime \<Rightarrow> column_row list \<Rightarrow> column list \<Rightarrow> py_error + column list" where
  "format_columns rt [] columns = Inr columns"
| "format_columns rt (r # rows) columns =
     (case coltype_of_row rt r of
        Inl e \<Rightarrow> Inl e
      | Inr coltype \<Rightarrow>
          format_columns rt rows
            (columns @ [\<lparr>col_name = row_name r, col_type = coltype,
                         col_nullable = row_nullable r\<rparr>]))"

definition get_columns :: "runtime \<Rightarrow> column_row list \<Rightarrow> py_error + column list" where
  "get_columns rt rows = format_columns rt rows []"

text \<open>
  A runtime for the concrete examples below: the default digit limit. Their format texts
  are ASCII, so what this runtime answers on other texts is not consulted.
\<close>

definition example_runtime :: runtime where
  "example_runtime = \<lparr>int_max_str_digits = 4300, unicode_numeric = (\<lambda>f. Inl ValueError)\<rparr>"

subsection \<open>\<open>has_table\<close> and \<open>get_table_oid\<close>\<close>

text \<open>
  The two system views the lookups query, as the rows a connection sees, with the columns
  the queries name. \<open>obj_schema\<close> is in the view and in no condition of \<open>has_table\<close>.
  Of a row of \<open>_V_TABLE\<close> the query \<open>SELECT *\<close> returns all columns and \<open>scalar()\<close> reads
  the first, \<open>tbl_first_column\<close>, which is NULL when \<open>None\<close>.
\<close>

record object_data_row =
  objname :: string
  dbname :: string
  obj_schema :: string

record v_table_row =
  tbl_first_column :: "int option"
  tbl_tablename :: string
  tbl_schema :: string

record connection =
  sql_database_name :: string
  v_object_data :: "object_data_row list"
  v_table :: "v_table_row list"

text \<open>
  \<^verbatim>\<open>
  def has_table(self, connection, tablename, schema=None):
      dbname = connection.connection.getinfo(pyodbc.SQL_DATABASE_NAME)
      sql = ('select count(*) from _v_object_data where objname = ? '
             'and dbname = ?')
      result = connection.execute(sql, (str(tablename), dbname)).scalar()
      return bool(result)
  \<close>
  The count of the rows that meet the two conditions of the query is the result; \<open>bool\<close>
  of a count is true when it is not zero.
\<close>

definition has_table :: "connection \<Rightarrow> string \<Rightarrow> string option \<Rightarrow> bool" where
  "has_table conn tablename schema =
     (let db = sql_database_name conn;
          result = length (filter (\<lambda>r. objname r = tablename \<and> dbname r = db)
                             (v_object_data conn))
      in result \<noteq> 0)"

text \<open>
  \<^verbatim>\<open>
  def get_table_oid(self, connection, table_name, schema=None, **kw):
      table_oid = None
      if schema is not None:
          schema_where_clause = "schema = :schema"
      else:
          schema_where_clause = "1=1"
      query = ("""
              SELECT * FROM _V_TABLE
              WHERE (%s)
              AND tablename = :table_name
          """ % schema_where_clause)
      ...
      c = connection.execute(s, table_name=table_name, schema=schema)
      table_oid = c.scalar()
      if table_oid is None:
          raise exc.NoSuchTableError(table_name)
      return table_oid
  \<close>
  The rows of the query are the rows of the view that meet its conditions. \<open>scalar()\<close> is
  the first column of the first row, and \<open>None\<close> when there is no row. The decorator
  \<open>reflection.cache\<close> stores results of earlier calls when the caller passes a cache; the
  function is modelled without one.
\<close>

definition scalar :: "v_table_row list \<Rightarrow> int option" where
  "scalar rows = (case rows of [] \<Rightarrow> None | r # _ \<Rightarrow> tbl_first_column r)"

definition get_table_oid :: "connection \<Rightarrow> string \<Rightarrow> string option \<Rightarrow> py_error + int" where
  "get_table_oid conn table_name schema =
     (let c = filter (\<lambda>r. (case schema of None \<Rightarrow> True | Some s \<Rightarrow> tbl_schema r = s)
                          \<and> tbl_tablename r = table_name)
                (v_table conn);
          table_oid = scalar c
      in case table_oid of
           None \<Rightarrow> Inl (NoSuchTableError table_name)
         | Some oid \<Rightarrow> Inr oid)"


section \<open>Decimal texts\<close>

text \<open>
  The text \<open>str_int\<close> writes is the decimal text of the integer, and \<open>int_of_digits\<close>
  reads the number a run of digits denotes.
\<close>

lemma below_ten:
  fixes k :: nat
  assumes "k < 10"
  shows "k = 0 \<or> k = 1 \<or> k = 2 \<or> k = 3 \<or> k = 4 \<or> k = 5 \<or> k = 6 \<or> k = 7 \<or> k = 8 \<or> k = 9"
  using assms by arith



lemma is_digit_digit_char: "is_digit (digit_char d)"
proof -
  have "d mod 10 < 10" by simp
  from below_ten [OF this] show ?thesis
    unfolding digit_char_def is_digit_def by (elim disjE) simp_all
qed


lemma decimal_value_snoc:
  "decimal_value (xs @ [c]) = 10 * decimal_value xs + ((of_char c :: nat) - 48)"
proof -
  have "(\<Sum>i<length xs. ((of_char ((xs @ [c]) ! i) :: nat) - 48) * 10 ^ (length xs - i))
      = (\<Sum>i<length xs. 10 * (((of_char (xs ! i) :: nat) - 48) * 10 ^ (length xs - Suc i)))"
  proof (rule sum.cong)
    fix i assume "i \<in> {..<length xs}"
    then have i: "i < length xs" by simp
    then have "length xs - i = Suc (length xs - Suc i)" by arith
    with i show "((of_char ((xs @ [c]) ! i) :: nat) - 48) * 10 ^ (length xs - i)
        = 10 * (((of_char (xs ! i) :: nat) - 48) * 10 ^ (length xs - Suc i))"
      by (simp add: nth_append)
  qed simp
  then show ?thesis
    by (simp add: decimal_value_def sum_distrib_left)
qed

lemma int_of_digits_snoc: "int_of_digits (xs @ [c]) = 10 * int_of_digits xs + digit_val c"
  by (simp add: int_of_digits_def)

lemma int_of_digits_decimal: "int_of_digits ds = decimal_value ds"
proof (induction ds rule: rev_induct)
  case Nil
  show ?case by (simp add: int_of_digits_def decimal_value_def)
next
  case (snoc c ds)
  then show ?case
    by (simp add: int_of_digits_snoc decimal_value_snoc digit_val_def)
qed









section \<open>Properties of \<open>gen_insert\<close>\<close>

lemma set_py_join: "set (py_join sep xs) \<subseteq> set sep \<union> \<Union> (set ` set xs)"
  by (induction sep xs rule: py_join.induct) auto

lemma set_quoted:
  "\<Union> (set ` set (map (\<lambda>c. [q] @ c @ [q]) columns)) \<subseteq> {q} \<union> \<Union> (set ` set columns)"
  by auto

lemma set_quoted_join:
  assumes "set sep \<subseteq> S"
  shows "set (py_join sep (map (\<lambda>c. [q] @ c @ [q]) columns))
           \<subseteq> S \<union> {q} \<union> \<Union> (set ` set columns)"
  using assms set_py_join [of sep "map (\<lambda>c. [q] @ c @ [q]) columns"] set_quoted [of q columns]
  by blast

lemma set_frame:
  assumes "set a \<subseteq> S" and "set b \<subseteq> S" and "set c \<subseteq> S" and "set d \<subseteq> S"
    and "set J \<subseteq> S \<union> Q \<union> C"
  shows "set (a @ t @ b @ J @ c @ J @ d) \<subseteq> S \<union> Q \<union> set t \<union> C"
  using assms by auto

lemma py_join_Cons: "py_join sep (x # xs) = x @ concat (map (\<lambda>y. sep @ y) xs)"
  by (induction xs arbitrary: x) simp_all

lemma py_join_quoted:
  "py_join sep (map (\<lambda>c. [q] @ c @ [q]) columns)
     = (case columns of
          [] \<Rightarrow> []
        | c # cs \<Rightarrow> [q] @ c @ [q] @ concat (map (\<lambda>d. sep @ [q] @ d @ [q]) cs))"
  by (cases columns) (simp_all add: py_join_Cons comp_def)

lemma in_set_map_quote: "c \<in> set xs \<Longrightarrow> [q] @ c @ [q] \<in> set (map (\<lambda>i. [q] @ i @ [q]) xs)"
  by simp

lemma sublist_after:
  assumes "sublist x ys"
  shows "sublist x (zs @ ys)"
proof -
  from assms obtain ps ss where "ys = ps @ x @ ss" unfolding sublist_def by blast
  then have "zs @ ys = (zs @ ps) @ x @ ss" by simp
  then show ?thesis unfolding sublist_def by blast
qed

lemma sublist_py_join: "x \<in> set xs \<Longrightarrow> sublist x (py_join sep xs)"
proof (induction sep xs rule: py_join.induct)
  case (1 sep)
  then show ?case by simp
next
  case (2 sep y)
  then show ?case by simp
next
  case (3 sep y z zs)
  show ?case
  proof (cases "x = y")
    case True
    then show ?thesis by simp
  next
    case False
    with 3 have "sublist x (py_join sep (z # zs))" by simp
    then have "sublist x ((y @ sep) @ py_join sep (z # zs))" by (rule sublist_after)
    then show ?thesis by simp
  qed
qed

lemma sublist_frame:
  assumes "sublist x J"
  shows "sublist x (a @ t @ b @ J @ r)"
proof -
  from assms obtain ps ss where "J = ps @ x @ ss" unfolding sublist_def by blast
  then have "a @ t @ b @ J @ r = (a @ t @ b @ ps) @ x @ (ss @ r)" by simp
  then show ?thesis unfolding sublist_def by blast
qed

text \<open>
  Claim C7. For every table name and column list, \<open>gen_insert\<close> returns
  \<open>insert into <table> (<L>) values (<L>)\<close>, where \<open><L>\<close> is empty for no column and
  otherwise the first column name between single quotes followed, for every further column
  name in order, by a comma, a newline and that name between single quotes: the same text
  in the column list and in the values list. Every column name occurs in the result between
  single quotes. Every character of the result is a character of the fixed text, a single
  quote, or a character of the table name or of a column name: the function puts in no
  placeholder of its own.
\<close>

theorem gen_insert_quotes_columns:
  "gen_insert tname columns =
     ''insert into '' @ tname @ '' (''
       @ (case columns of
            [] \<Rightarrow> []
          | c # cs \<Rightarrow> [CHR 0x27] @ c @ [CHR 0x27]
                      @ concat (map (\<lambda>d. '',\<newline>'' @ [CHR 0x27] @ d @ [CHR 0x27]) cs))
       @ '') values (''
       @ (case columns of
            [] \<Rightarrow> []
          | c # cs \<Rightarrow> [CHR 0x27] @ c @ [CHR 0x27]
                      @ concat (map (\<lambda>d. '',\<newline>'' @ [CHR 0x27] @ d @ [CHR 0x27]) cs))
       @ '')''
   \<and> (\<forall>c\<in>set columns.
         sublist ([CHR 0x27] @ c @ [CHR 0x27]) (gen_insert tname columns))
   \<and> set (gen_insert tname columns)
       \<subseteq> set ''insert into ()values,\<newline>'' \<union> {CHR 0x27} \<union> set tname \<union> \<Union> (set ` set columns)"
proof (intro conjI ballI)
  show "gen_insert tname columns =
     ''insert into '' @ tname @ '' (''
       @ (case columns of
            [] \<Rightarrow> []
          | c # cs \<Rightarrow> [CHR 0x27] @ c @ [CHR 0x27]
                      @ concat (map (\<lambda>d. '',\<newline>'' @ [CHR 0x27] @ d @ [CHR 0x27]) cs))
       @ '') values (''
       @ (case columns of
            [] \<Rightarrow> []
          | c # cs \<Rightarrow> [CHR 0x27] @ c @ [CHR 0x27]
                      @ concat (map (\<lambda>d. '',\<newline>'' @ [CHR 0x27] @ d @ [CHR 0x27]) cs))
       @ '')''"
    unfolding gen_insert_def py_join_quoted ..
next
  fix c assume "c \<in> set columns"
  then have "[CHR 0x27] @ c @ [CHR 0x27] \<in> set (map (\<lambda>i. [CHR 0x27] @ i @ [CHR 0x27]) columns)"
    by (rule in_set_map_quote)
  then have "sublist ([CHR 0x27] @ c @ [CHR 0x27])
               (py_join '',\<newline>'' (map (\<lambda>i. [CHR 0x27] @ i @ [CHR 0x27]) columns))"
    by (rule sublist_py_join)
  then show "sublist ([CHR 0x27] @ c @ [CHR 0x27]) (gen_insert tname columns)"
    unfolding gen_insert_def by (rule sublist_frame)
next
  have a: "set ''insert into '' \<subseteq> set ''insert into ()values,\<newline>''" by simp
  have b: "set '' ('' \<subseteq> set ''insert into ()values,\<newline>''" by simp
  have c: "set '') values ('' \<subseteq> set ''insert into ()values,\<newline>''" by simp
  have d: "set '')'' \<subseteq> set ''insert into ()values,\<newline>''" by simp
  have e: "set '',\<newline>'' \<subseteq> set ''insert into ()values,\<newline>''" by simp
  show "set (gen_insert tname columns)
       \<subseteq> set ''insert into ()values,\<newline>'' \<union> {CHR 0x27} \<union> set tname \<union> \<Union> (set ` set columns)"
    unfolding gen_insert_def
    by (rule set_frame [OF a b c d set_quoted_join [OF e]])
qed

text \<open>
  The example of the specification: \<open>gen_insert("t", ["a","b"])\<close> is
  \<open>insert into t ('a',\n'b') values ('a',\n'b')\<close>, which contains
  \<open>insert into t ('a',\n'b')\<close>, the quoted name \<open>'b'\<close> and no question mark.
\<close>

theorem gen_insert_quotes_columns_witness:
  "gen_insert ''t'' [''a'', ''b''] =
       ''insert into t ('' @ [CHR 0x27] @ ''a'' @ [CHR 0x27] @ '',\<newline>'' @ [CHR 0x27] @ ''b'' @ [CHR 0x27]
         @ '') values ('' @ [CHR 0x27] @ ''a'' @ [CHR 0x27] @ '',\<newline>'' @ [CHR 0x27] @ ''b'' @ [CHR 0x27] @ '')''
   \<and> sublist (''insert into t ('' @ [CHR 0x27] @ ''a'' @ [CHR 0x27] @ '',\<newline>'' @ [CHR 0x27] @ ''b'' @ [CHR 0x27] @ '')'')
         (gen_insert ''t'' [''a'', ''b''])
   \<and> sublist ([CHR 0x27] @ ''b'' @ [CHR 0x27]) (gen_insert ''t'' [''a'', ''b''])
   \<and> CHR ''?'' \<notin> set (gen_insert ''t'' [''a'', ''b''])"
proof (intro conjI)
  note inst = gen_insert_quotes_columns [of "''t''" "[''a'', ''b'']"]
  show e: "gen_insert ''t'' [''a'', ''b''] =
       ''insert into t ('' @ [CHR 0x27] @ ''a'' @ [CHR 0x27] @ '',\<newline>'' @ [CHR 0x27] @ ''b'' @ [CHR 0x27]
         @ '') values ('' @ [CHR 0x27] @ ''a'' @ [CHR 0x27] @ '',\<newline>'' @ [CHR 0x27] @ ''b'' @ [CHR 0x27] @ '')''"
    using conjunct1 [OF inst] by simp
  have "sublist (''insert into t ('' @ [CHR 0x27] @ ''a'' @ [CHR 0x27] @ '',\<newline>'' @ [CHR 0x27] @ ''b'' @ [CHR 0x27] @ '')'')
          ([] @ (''insert into t ('' @ [CHR 0x27] @ ''a'' @ [CHR 0x27] @ '',\<newline>'' @ [CHR 0x27] @ ''b'' @ [CHR 0x27] @ '')'')
            @ ('' values ('' @ [CHR 0x27] @ ''a'' @ [CHR 0x27] @ '',\<newline>'' @ [CHR 0x27] @ ''b'' @ [CHR 0x27] @ '')''))"
    by (rule sublist_appendI)
  then show "sublist (''insert into t ('' @ [CHR 0x27] @ ''a'' @ [CHR 0x27] @ '',\<newline>'' @ [CHR 0x27] @ ''b'' @ [CHR 0x27] @ '')'')
         (gen_insert ''t'' [''a'', ''b''])"
    unfolding e by simp
  have m: "''b'' \<in> set [''a'', ''b'']" by simp
  show "sublist ([CHR 0x27] @ ''b'' @ [CHR 0x27]) (gen_insert ''t'' [''a'', ''b''])"
    by (rule bspec [OF conjunct1 [OF conjunct2 [OF inst]] m])
  have nq: "CHR ''?'' \<notin> set ''insert into ()values,\<newline>'' \<union> {CHR 0x27} \<union> set ''t'' \<union> \<Union> (set ` set [''a'', ''b''])"
    by simp
  show "CHR ''?'' \<notin> set (gen_insert ''t'' [''a'', ''b''])"
  proof
    assume "CHR ''?'' \<in> set (gen_insert ''t'' [''a'', ''b''])"
    then have "CHR ''?'' \<in> set ''insert into ()values,\<newline>'' \<union> {CHR 0x27} \<union> set ''t'' \<union> \<Union> (set ` set [''a'', ''b''])"
      by (rule subsetD [OF conjunct2 [OF conjunct2 [OF inst]]])
    with nq show False by (rule notE)
  qed
qed


section \<open>Properties of the context registry\<close>

lemma register_all_other:
  "T \<notin> fst ` set regs \<Longrightarrow> register_all regs m T = m T"
  by (induction regs m rule: register_all.induct) (auto simp: register_context_factory_def)

text \<open>
  Claim C1. Let the config store return the Config \<open>cfg\<close> for the key. If factory \<open>F\<close> was
  registered for the class of \<open>cfg\<close>, and the registrations made since then are for other
  classes, \<open>get\<close> returns what \<open>F.create_from_config\<close> returns on \<open>cfg\<close>. If the registry
  has no factory for the class of \<open>cfg\<close>, \<open>get\<close> raises the exception whose message is
  \<open>Context factory for <class 'N'> not configured.\<close>, with \<open>N\<close> the qualified name of that
  class.
\<close>

theorem get_uses_registered_factory:
  assumes "cm_get_config config_key = Inr cfg"
  shows "(runtime_type cfg = T \<and> T \<notin> fst ` set regs \<longrightarrow>
            get cm_get_config (register_all regs (register_context_factory T F m)) config_key
              = F cfg)
       \<and> (m (runtime_type cfg) = None \<longrightarrow>
            get cm_get_config m config_key =
              Inl (Exception (''Context factory for <class '' @ [CHR 0x27]
                              @ class_name (runtime_type cfg) @ [CHR 0x27]
                              @ ''> not configured.'')))"
proof (intro conjI impI)
  assume h: "runtime_type cfg = T \<and> T \<notin> fst ` set regs"
  then have "register_all regs (register_context_factory T F m) T = Some F"
    by (simp add: register_all_other register_context_factory_def)
  with assms h
  show "get cm_get_config (register_all regs (register_context_factory T F m)) config_key = F cfg"
    by (simp add: get_def)
next
  assume "m (runtime_type cfg) = None"
  with assms show "get cm_get_config m config_key =
              Inl (Exception (''Context factory for <class '' @ [CHR 0x27]
                              @ class_name (runtime_type cfg) @ [CHR 0x27]
                              @ ''> not configured.''))"
    by (simp add: get_def str_type_def)
qed

text \<open>
  A store with one Config of class \<open>DBConfig\<close> under the key \<open>db1\<close>: after registering a
  factory for \<open>DBConfig\<close> and then one for another class, \<open>get\<close> builds the context with
  the first; on the empty registry it raises, and the message names \<open>DBConfig\<close>.
\<close>

theorem get_uses_registered_factory_witness:
  "get (\<lambda>k. if k = ''db1''
            then Inr \<lparr>runtime_type = \<lparr>class_id = 1, class_name = ''DBConfig''\<rparr>,
                      key = ''db1'', password = None\<rparr>
            else Inl (Exception ''no such config''))
       (register_all [(\<lparr>class_id = 2, class_name = ''SparkConfig''\<rparr>,
                       \<lambda>c. Inr (''spark:'' @ key c))]
          (register_context_factory \<lparr>class_id = 1, class_name = ''DBConfig''\<rparr>
             (\<lambda>c. Inr (''db:'' @ key c)) Map.empty))
       ''db1''
     = Inr ''db:db1''
   \<and> get (\<lambda>k. if k = ''db1''
              then Inr \<lparr>runtime_type = \<lparr>class_id = 1, class_name = ''DBConfig''\<rparr>,
                        key = ''db1'', password = None\<rparr>
              else Inl (Exception ''no such config''))
         (Map.empty :: string factory_map) ''db1''
     = Inl (Exception (''Context factory for <class '' @ [CHR 0x27] @ ''DBConfig'' @ [CHR 0x27]
                       @ ''> not configured.''))"
  using get_uses_registered_factory
    [of "\<lambda>k. if k = ''db1''
            then Inr \<lparr>runtime_type = \<lparr>class_id = 1, class_name = ''DBConfig''\<rparr>,
                      key = ''db1'', password = None\<rparr>
            else Inl (Exception ''no such config'')"
        "''db1''"
        "\<lparr>runtime_type = \<lparr>class_id = 1, class_name = ''DBConfig''\<rparr>,
          key = ''db1'', password = None\<rparr>"
        "\<lparr>class_id = 1, class_name = ''DBConfig''\<rparr>"
        "[(\<lparr>class_id = 2, class_name = ''SparkConfig''\<rparr>, \<lambda>c. Inr (''spark:'' @ key c))]"
        "\<lambda>c. Inr (''db:'' @ key c)"
        "Map.empty"]
  by simp

text \<open>
  The registry is keyed by the class, not by its name: a Config of another class that is
  also called \<open>DBConfig\<close> finds no factory.
\<close>

lemma get_same_name_other_class:
  "get (\<lambda>k. Inr \<lparr>runtime_type = \<lparr>class_id = 7, class_name = ''DBConfig''\<rparr>,
                  key = k, password = None\<rparr>)
       (register_context_factory \<lparr>class_id = 1, class_name = ''DBConfig''\<rparr>
          (\<lambda>c. Inr (''db:'' @ key c)) Map.empty)
       ''db1''
     = Inl (Exception (''Context factory for <class '' @ [CHR 0x27] @ ''DBConfig'' @ [CHR 0x27]
                       @ ''> not configured.''))"
  by (simp add: get_def register_context_factory_def str_type_def)

text \<open>
  Claim C8. For every context whose Config has no inline password (\<open>password is None\<close>),
  \<open>get_password\<close> returns what the secret store returns for the key of the Config.
\<close>

theorem get_password_falls_back_to_store:
  "password (ctx_config self) = None \<Longrightarrow>
     get_password cm_get_password self = cm_get_password (key (ctx_config self))"
  by (simp add: get_password_def)

theorem get_password_falls_back_to_store_witness:
  "password (ctx_config (Context_init
       \<lparr>runtime_type = \<lparr>class_id = 1, class_name = ''DBConfig''\<rparr>, key = ''db1'', password = None\<rparr>)) = None
   \<and> get_password (\<lambda>k. Inr (Some (''secret of '' @ k)))
         (Context_init \<lparr>runtime_type = \<lparr>class_id = 1, class_name = ''DBConfig''\<rparr>, key = ''db1'', password = None\<rparr>)
       = Inr (Some ''secret of db1'')"
  using get_password_falls_back_to_store
    [of "Context_init \<lparr>runtime_type = \<lparr>class_id = 1, class_name = ''DBConfig''\<rparr>, key = ''db1'', password = None\<rparr>"
        "\<lambda>k. Inr (Some (''secret of '' @ k))"]
  by (simp add: Context_init_def)

text \<open>
  Claim C9. For every context whose Config has an inline password, \<open>get_password\<close> returns
  \<open>None\<close>: the function has no branch for that case, and neither the inline password nor
  the secret store is read.
\<close>

theorem get_password_inline_returns_None:
  "password (ctx_config self) \<noteq> None \<Longrightarrow> get_password cm_get_password self = Inr None"
  unfolding get_password_def by (cases "password (ctx_config self)") simp_all

theorem get_password_inline_returns_None_witness:
  "password (ctx_config (Context_init
       \<lparr>runtime_type = \<lparr>class_id = 1, class_name = ''DBConfig''\<rparr>, key = ''db1'', password = Some ''inline''\<rparr>)) \<noteq> None
   \<and> get_password (\<lambda>k. Inr (Some (''secret of '' @ k)))
         (Context_init \<lparr>runtime_type = \<lparr>class_id = 1, class_name = ''DBConfig''\<rparr>, key = ''db1'',
                         password = Some ''inline''\<rparr>)
       = Inr None"
  using get_password_inline_returns_None
    [of "Context_init \<lparr>runtime_type = \<lparr>class_id = 1, class_name = ''DBConfig''\<rparr>, key = ''db1'',
                        password = Some ''inline''\<rparr>"
        "\<lambda>k. Inr (Some (''secret of '' @ k))"]
  by (simp add: Context_init_def)


section \<open>Properties of \<open>limit_clause\<close>\<close>








text \<open>
  The decimal text of 1000 is \<open>1000\<close> and no other text; a run with leading zeros denotes
  a number and is not its decimal text.
\<close>

lemma decimal_text_examples:
  "decimal_text ''1000'' 1000 \<and> decimal_text ''-42'' (- 42) \<and> \<not> decimal_text ''0'' 1000
   \<and> \<not> decimal_text ''007'' 7 \<and> decimal_value ''007'' = 7"
  by code_simp




section \<open>Properties of the DISTRIBUTE ON clause\<close>

lemma post_create_table_no_item:
  "table_distribute_on tbl = None \<Longrightarrow> post_create_table tbl = Inr '' DISTRIBUTE ON RANDOM''"
  by (simp add: post_create_table_def)

lemma post_create_table_columns:
  assumes "table_distribute_on tbl = Some (DistributeOn (c # cs))" and "lower c \<noteq> ''random''"
  shows "post_create_table tbl = Inr ('' DISTRIBUTE ON ('' @ py_join '','' (c # cs) @ '')'')"
  using assms by (simp add: post_create_table_def DistributeOn_def)

lemma post_create_table_random:
  assumes "table_distribute_on tbl = Some (DistributeOn (c # cs))" and "lower c = ''random''"
  shows "post_create_table tbl = Inr '' DISTRIBUTE ON RANDOM''"
  using assms by (simp add: post_create_table_def DistributeOn_def)

lemma post_create_table_example:
  "post_create_table \<lparr>table_distribute_on = Some (DistributeOn [''a'', ''b''])\<rparr>
     = Inr '' DISTRIBUTE ON (a,b)''"
  by (simp add: post_create_table_def DistributeOn_def lower_def lower_char_def)

lemma post_create_table_example_random:
  "post_create_table \<lparr>table_distribute_on = Some (DistributeOn [''Random''])\<rparr>
     = Inr '' DISTRIBUTE ON RANDOM''"
  by code_simp

lemma distribute_clause_random:
  "distribute_on self = PyStr s \<Longrightarrow> lower s = ''random'' \<Longrightarrow> distribute_clause self = Inr ''RANDOM''"
  by (simp add: distribute_clause_def)

lemma distribute_clause_tuple:
  "distribute_on self = PyTuple names \<Longrightarrow> distribute_clause self = Inl AttributeError"
  by (simp add: distribute_clause_def)

text \<open>
  Claim C5. The claim asks for \<open>(a,b)\<close> from the column list \<open>["a","b"]\<close> in both
  places. \<open>post_create_table\<close> gives it (lemmas \<open>post_create_table_columns\<close>,
  \<open>post_create_table_random\<close>). \<open>CreateTableAs.distribute_clause\<close> calls \<open>lower\<close> on the
  value itself: with the tuple of column names that its constructor documents it raises
  AttributeError, and so does the compilation of the statement.
\<close>

theorem distribute_clause_column_list_raises:
  "distribute_clause \<lparr>new_table_name = ''t'', temporary = False,
                       distribute_on = PyTuple [''a'', ''b'']\<rparr> = Inl AttributeError
   \<and> visit_create_table_as \<lparr>new_table_name = ''t'', temporary = False,
                              distribute_on = PyTuple [''a'', ''b'']\<rparr> ''select 1''
       = Inl AttributeError
   \<and> post_create_table \<lparr>table_distribute_on = Some (DistributeOn [''a'', ''b''])\<rparr>
       = Inr '' DISTRIBUTE ON (a,b)''"
  by (simp add: distribute_clause_def visit_create_table_as_def post_create_table_def
      DistributeOn_def lower_def lower_char_def)

text \<open>
  With a string that is not \<open>random\<close>, \<open>distribute_clause\<close> joins the characters of the
  string.
\<close>

lemma distribute_clause_string_joins_characters:
  "distribute_clause \<lparr>new_table_name = ''t'', temporary = False, distribute_on = PyStr ''id''\<rparr>
     = Inr ''(i,d)''"
  by (simp add: distribute_clause_def lower_def lower_char_def)


section \<open>Properties of \<open>get_columns\<close>\<close>

subsection \<open>The pattern\<close>

lemma oid_datatype_map_Numeric:
  "oid_datatype_map t = Some (cls, hl) \<Longrightarrow> (cls = Numeric) = (t = 1700)"
  by (auto simp: oid_datatype_map_def oid_datatype_list_def split: if_splits)

lemma oid_datatype_map_1700: "oid_datatype_map 1700 = Some (Numeric, False)"
  by (simp add: oid_datatype_map_def oid_datatype_list_def)

lemma takeWhile_digits:
  assumes "list_all is_digit p" and "\<not> is_digit c"
  shows "takeWhile is_digit (p @ c # r) = p" and "dropWhile is_digit (p @ c # r) = c # r"
  using assms by (induction p) auto

lemma not_digit_comma: "\<not> is_digit CHR '',''"
  by (simp add: is_digit_def)

lemma not_digit_bracket: "\<not> is_digit CHR '')''"
  by (simp add: is_digit_def)

lemma re_match_numeric_form:
  assumes "p \<noteq> []" and "s \<noteq> []" and "list_all is_digit p" and "list_all is_digit s"
  shows "re_match_numeric (''numeric('' @ p @ '','' @ s @ '')'' @ rest) = Some (p, s)"
proof -
  have a: "take 8 (''numeric('' @ p @ '','' @ s @ '')'' @ rest) = ''numeric(''" by simp
  have b: "drop 8 (''numeric('' @ p @ '','' @ s @ '')'' @ rest) = p @ CHR '','' # (s @ CHR 0x29 # rest)"
    by simp
  show ?thesis
    unfolding re_match_numeric_def a b
    using assms
    by (simp add: takeWhile_digits [OF _ not_digit_comma] takeWhile_digits [OF _ not_digit_bracket])
qed

subsection \<open>Texts of the form \<open>numeric(p,s)\<close>\<close>

lemma digit_facts:
  assumes "c \<in> set ''0123456789''"
  shows "is_digit c" and "lower_char c = c" and "(of_char c :: nat) < 128"
  using assms by (auto simp: is_digit_def lower_char_def)

lemma digits_facts:
  assumes "set p \<subseteq> set ''0123456789''"
  shows "list_all is_digit p" and "lower p = p" and "is_ascii p"
proof -
  from assms have m: "\<And>c. c \<in> set p \<Longrightarrow> c \<in> set ''0123456789''" by (rule subsetD)
  show "list_all is_digit p"
    unfolding list_all_iff using m by (blast intro: digit_facts(1))
  show "lower p = p"
    unfolding lower_def using m by (simp add: map_idI digit_facts(2))
  show "is_ascii p"
    unfolding is_ascii_def list_all_iff using m by (blast intro: digit_facts(3))
qed

lemma head_facts_gen:
  assumes "list_all2 (\<lambda>c (l, u). c = l \<or> c = u) h lus"
    and "list_all (\<lambda>(l, u). lower_char l = l \<and> lower_char u = l
                              \<and> (of_char l :: nat) < 128 \<and> (of_char u :: nat) < 128) lus"
  shows "lower h = map fst lus \<and> is_ascii h"
  using assms
  by (induction h lus rule: list_all2_induct) (auto simp: lower_def is_ascii_def)

lemma head_pairs:
  "list_all (\<lambda>(l, u). lower_char l = l \<and> lower_char u = l
                        \<and> (of_char l :: nat) < 128 \<and> (of_char u :: nat) < 128)
     (zip ''numeric('' ''NUMERIC('')"
  by code_simp

lemma head_names: "map fst (zip ''numeric('' ''NUMERIC('') = ''numeric(''"
  by simp

lemma head_facts:
  assumes "list_all2 (\<lambda>c (l, u). c = l \<or> c = u) h (zip ''numeric('' ''NUMERIC('')"
  shows "lower h = ''numeric(''" and "is_ascii h"
  using head_facts_gen [OF assms head_pairs] by (simp_all only: head_names)

lemma lower_append: "lower (a @ b) = lower a @ lower b"
  by (simp add: lower_def)

lemma is_ascii_append: "is_ascii (a @ b) = (is_ascii a \<and> is_ascii b)"
  by (simp add: is_ascii_def)

lemma lower_comma: "lower '','' = '',''"
  by (simp add: lower_def lower_char_def)

lemma lower_bracket: "lower '')'' = '')''"
  by (simp add: lower_def lower_char_def)

lemma ascii_comma: "is_ascii '',''"
  by (simp add: is_ascii_def)

lemma ascii_bracket: "is_ascii '')''"
  by (simp add: is_ascii_def)

lemma numeric_text_match:
  assumes "numeric_text f h p s rest"
  shows "is_ascii f" and "re_match_numeric (lower f) = Some (p, s)"
proof -
  from assms have f: "f = h @ p @ '','' @ s @ '')'' @ rest"
    and h: "list_all2 (\<lambda>c (l, u). c = l \<or> c = u) h (zip ''numeric('' ''NUMERIC('')"
    and ne: "p \<noteq> []" "s \<noteq> []"
    and dp: "set p \<subseteq> set ''0123456789''" and ds: "set s \<subseteq> set ''0123456789''"
    and r: "is_ascii rest"
    unfolding numeric_text_def is_ascii_def by blast+
  show "is_ascii f"
    unfolding f is_ascii_append
    using head_facts(2) [OF h] digits_facts(3) [OF dp] digits_facts(3) [OF ds]
      ascii_comma ascii_bracket r
    by (intro conjI)
  have "lower f = ''numeric('' @ p @ '','' @ s @ '')'' @ lower rest"
    unfolding f lower_append
    by (simp only: head_facts(1) [OF h] digits_facts(2) [OF dp] digits_facts(2) [OF ds]
        lower_comma lower_bracket)
  then show "re_match_numeric (lower f) = Some (p, s)"
    using re_match_numeric_form [OF ne digits_facts(1) [OF dp] digits_facts(1) [OF ds], of "lower rest"]
    by simp
qed

subsection \<open>One row\<close>

lemma py_int_within:
  assumes "int_max_str_digits rt = 0 \<or> length s \<le> int_max_str_digits rt"
  shows "py_int rt s = Inr (int (decimal_value s))"
  using assms by (auto simp: py_int_def int_of_digits_decimal)


lemma coltype_of_row_numeric:
  assumes t: "row_typeid r = 1700" and f: "row_format_type r = Some f"
    and n: "numeric_text f h p s rest"
    and lp: "int_max_str_digits rt = 0 \<or> length p \<le> int_max_str_digits rt"
    and ls: "int_max_str_digits rt = 0 \<or> length s \<le> int_max_str_digits rt"
  shows "coltype_of_row rt r
           = Inr (Coltype Numeric [Some (int (decimal_value p)), Some (int (decimal_value s))])"
  using t f numeric_text_match [OF n] py_int_within [OF lp] py_int_within [OF ls]
  by (simp add: coltype_of_row_def oid_datatype_map_1700)

lemma coltype_of_row_length:
  assumes "oid_datatype_map (row_typeid r) = Some (cls, True)" and "row_typeid r \<noteq> 1700"
  shows "coltype_of_row rt r = Inr (Coltype cls [row_length r])"
  using assms oid_datatype_map_Numeric [OF assms(1)] by (simp add: coltype_of_row_def)

lemma coltype_of_row_plain:
  assumes "oid_datatype_map (row_typeid r) = Some (cls, False)" and "row_typeid r \<noteq> 1700"
  shows "coltype_of_row rt r = Inr (Coltype cls [])"
  using assms oid_datatype_map_Numeric [OF assms(1)] by (simp add: coltype_of_row_def)


subsection \<open>The loop\<close>

lemma format_columns_ok:
  assumes "\<forall>r\<in>set rows. \<exists>t. coltype_of_row rt r = Inr t"
  shows "format_columns rt rows acc =
           Inr (acc @ map (\<lambda>r. \<lparr>col_name = row_name r, col_type = projr (coltype_of_row rt r),
                                 col_nullable = row_nullable r\<rparr>) rows)"
  using assms
proof (induction rows arbitrary: acc)
  case Nil
  show ?case by simp
next
  case (Cons r rows)
  from Cons.prems obtain t where t: "coltype_of_row rt r = Inr t" by auto
  from Cons.prems have "\<forall>q\<in>set rows. \<exists>t. coltype_of_row rt q = Inr t" by simp
  from Cons.IH [OF this] t show ?case by simp
qed



subsection \<open>Rows with a mapped type id\<close>

lemma coltype_of_row_mapped:
  assumes m: "oid_datatype_map (row_typeid r) = Some (cls, has_length)"
    and n: "row_typeid r = 1700 \<longrightarrow>
              (\<exists>f h p s rest. row_format_type r = Some f \<and> numeric_text f h p s rest
                 \<and> (int_max_str_digits rt = 0
                      \<or> length p \<le> int_max_str_digits rt \<and> length s \<le> int_max_str_digits rt))"
  shows "\<exists>t. coltype_of_row rt r = Inr t \<and>
           (if row_typeid r = 1700
            then cls = Numeric \<and>
                 (\<forall>f h p s rest. row_format_type r = Some f \<and> numeric_text f h p s rest \<longrightarrow>
                    t = Coltype Numeric [Some (int (decimal_value p)), Some (int (decimal_value s))])
            else if has_length then t = Coltype cls [row_length r]
            else t = Coltype cls [])"
proof (cases "row_typeid r = 1700")
  case True
  with n obtain f h p s rest where f: "row_format_type r = Some f"
    and t: "numeric_text f h p s rest"
    and l: "int_max_str_digits rt = 0
             \<or> length p \<le> int_max_str_digits rt \<and> length s \<le> int_max_str_digits rt"
    by blast
  from l have lp: "int_max_str_digits rt = 0 \<or> length p \<le> int_max_str_digits rt"
    and ls: "int_max_str_digits rt = 0 \<or> length s \<le> int_max_str_digits rt" by blast+
  let ?t = "Coltype Numeric [Some (int (decimal_value p)), Some (int (decimal_value s))]"
  have c: "coltype_of_row rt r = Inr ?t" by (rule coltype_of_row_numeric [OF True f t lp ls])
  have "\<forall>f h p s rest. row_format_type r = Some f \<and> numeric_text f h p s rest \<longrightarrow>
          ?t = Coltype Numeric [Some (int (decimal_value p)), Some (int (decimal_value s))]"
  proof (intro allI impI)
    fix f' h' p' s' rest'
    assume a: "row_format_type r = Some f' \<and> numeric_text f' h' p' s' rest'"
    with f have "f' = f" by simp
    with a have "re_match_numeric (lower f) = Some (p', s')"
      using numeric_text_match(2) by blast
    moreover have "re_match_numeric (lower f) = Some (p, s)"
      by (rule numeric_text_match(2) [OF t])
    ultimately have "p' = p \<and> s' = s" by simp
    then show "?t = Coltype Numeric [Some (int (decimal_value p')), Some (int (decimal_value s'))]"
      by simp
  qed
  moreover from m True have "cls = Numeric" by (simp add: oid_datatype_map_Numeric)
  ultimately show ?thesis using c True by simp
next
  case False
  with m show ?thesis
    by (cases has_length) (simp_all add: coltype_of_row_length coltype_of_row_plain)
qed

text \<open>
  Claim C2. Let every fetched row have a type id that is a key of \<open>oid_datatype_map\<close>, and
  let the format text of every row with type id 1700 have the form \<open>numeric(p,s)\<close>, with
  runs of digits that \<open>int\<close> converts. Then \<open>get_columns\<close> returns one column for each row,
  in order, with the name and the nullability of the row and with the mapped type: for
  type id 1700 the class is Numeric and the type carries the numbers that the digits \<open>p\<close>
  and \<open>s\<close> denote; for an entry flagged variable-length the type carries the length of the
  row; for every other entry the type has no arguments.
\<close>

theorem get_columns_mapped_types:
  assumes mapped: "\<forall>r\<in>set rows. oid_datatype_map (row_typeid r) \<noteq> None"
    and numeric: "\<forall>r\<in>set rows. row_typeid r = 1700 \<longrightarrow>
                    (\<exists>f h p s rest. row_format_type r = Some f \<and> numeric_text f h p s rest
                       \<and> (int_max_str_digits rt = 0
                            \<or> length p \<le> int_max_str_digits rt
                              \<and> length s \<le> int_max_str_digits rt))"
  shows "\<exists>columns. get_columns rt rows = Inr columns \<and> length columns = length rows \<and>
           (\<forall>i<length rows.
              col_name (columns ! i) = row_name (rows ! i) \<and>
              col_nullable (columns ! i) = row_nullable (rows ! i) \<and>
              (\<forall>cls has_length.
                 oid_datatype_map (row_typeid (rows ! i)) = Some (cls, has_length) \<longrightarrow>
                 (if row_typeid (rows ! i) = 1700
                  then cls = Numeric \<and>
                       (\<forall>f h p s rest.
                          row_format_type (rows ! i) = Some f \<and> numeric_text f h p s rest \<longrightarrow>
                          col_type (columns ! i)
                            = Coltype Numeric [Some (int (decimal_value p)),
                                               Some (int (decimal_value s))])
                  else if has_length
                       then col_type (columns ! i) = Coltype cls [row_length (rows ! i)]
                       else col_type (columns ! i) = Coltype cls [])))"
proof -
  let ?col = "\<lambda>r. \<lparr>col_name = row_name r, col_type = projr (coltype_of_row rt r),
                    col_nullable = row_nullable r\<rparr>"
  have ok: "\<forall>r\<in>set rows. \<exists>t. coltype_of_row rt r = Inr t"
  proof
    fix r assume r: "r \<in> set rows"
    with mapped obtain cls hl where m: "oid_datatype_map (row_typeid r) = Some (cls, hl)"
      by fastforce
    from numeric r
    have "row_typeid r = 1700 \<longrightarrow>
            (\<exists>f h p s rest. row_format_type r = Some f \<and> numeric_text f h p s rest
               \<and> (int_max_str_digits rt = 0
                    \<or> length p \<le> int_max_str_digits rt \<and> length s \<le> int_max_str_digits rt))"
      by blast
    from coltype_of_row_mapped [OF m this] show "\<exists>t. coltype_of_row rt r = Inr t" by blast
  qed
  have g: "get_columns rt rows = Inr (map ?col rows)"
    unfolding get_columns_def using format_columns_ok [OF ok, of "[]"] by simp
  have "\<forall>i<length rows.
              col_name (map ?col rows ! i) = row_name (rows ! i) \<and>
              col_nullable (map ?col rows ! i) = row_nullable (rows ! i) \<and>
              (\<forall>cls has_length.
                 oid_datatype_map (row_typeid (rows ! i)) = Some (cls, has_length) \<longrightarrow>
                 (if row_typeid (rows ! i) = 1700
                  then cls = Numeric \<and>
                       (\<forall>f h p s rest.
                          row_format_type (rows ! i) = Some f \<and> numeric_text f h p s rest \<longrightarrow>
                          col_type (map ?col rows ! i)
                            = Coltype Numeric [Some (int (decimal_value p)),
                                               Some (int (decimal_value s))])
                  else if has_length
                       then col_type (map ?col rows ! i) = Coltype cls [row_length (rows ! i)]
                       else col_type (map ?col rows ! i) = Coltype cls []))"
  proof (intro allI impI conjI)
    fix i assume i: "i < length rows"
    then show "col_name (map ?col rows ! i) = row_name (rows ! i)" by simp
    from i show "col_nullable (map ?col rows ! i) = row_nullable (rows ! i)" by simp
    fix cls has_length
    assume m: "oid_datatype_map (row_typeid (rows ! i)) = Some (cls, has_length)"
    from i have r: "rows ! i \<in> set rows" by simp
    with numeric
    have n: "row_typeid (rows ! i) = 1700 \<longrightarrow>
               (\<exists>f h p s rest. row_format_type (rows ! i) = Some f \<and> numeric_text f h p s rest
                  \<and> (int_max_str_digits rt = 0
                       \<or> length p \<le> int_max_str_digits rt \<and> length s \<le> int_max_str_digits rt))"
      by blast
    from coltype_of_row_mapped [OF m n] obtain t where
      t: "coltype_of_row rt (rows ! i) = Inr t" and
      s: "if row_typeid (rows ! i) = 1700
          then cls = Numeric \<and>
               (\<forall>f h p s rest.
                  row_format_type (rows ! i) = Some f \<and> numeric_text f h p s rest \<longrightarrow>
                  t = Coltype Numeric [Some (int (decimal_value p)), Some (int (decimal_value s))])
          else if has_length then t = Coltype cls [row_length (rows ! i)]
          else t = Coltype cls []"
      by blast
    from i t have ct: "col_type (map ?col rows ! i) = t" by simp
    show "if row_typeid (rows ! i) = 1700
                  then cls = Numeric \<and>
                       (\<forall>f h p s rest.
                          row_format_type (rows ! i) = Some f \<and> numeric_text f h p s rest \<longrightarrow>
                          col_type (map ?col rows ! i)
                            = Coltype Numeric [Some (int (decimal_value p)),
                                               Some (int (decimal_value s))])
                  else if has_length
                       then col_type (map ?col rows ! i) = Coltype cls [row_length (rows ! i)]
                       else col_type (map ?col rows ! i) = Coltype cls []"
      unfolding ct by (rule s)
  qed
  with g show ?thesis by simp
qed

subsection \<open>Rows with an unmapped type id\<close>



text \<open>
  Three rows: a numeric column with format \<open>NUMERIC(18,4)\<close>, a varchar column of length 20
  and an integer column.
\<close>

theorem get_columns_mapped_types_witness:
  "\<exists>columns.
     get_columns example_runtime
       [\<lparr>row_name = ''amount'', row_typeid = 1700, row_nullable = True, row_length = Some 8,
          row_format_type = Some ''NUMERIC(18,4)''\<rparr>,
        \<lparr>row_name = ''name'', row_typeid = 1043, row_nullable = False, row_length = Some 20,
          row_format_type = Some ''CHARACTER VARYING(20)''\<rparr>,
        \<lparr>row_name = ''id'', row_typeid = 23, row_nullable = False, row_length = Some 4,
          row_format_type = Some ''INTEGER''\<rparr>] = Inr columns
     \<and> length columns = 3
     \<and> col_type (columns ! 0) = Coltype Numeric [Some 18, Some 4]
     \<and> col_type (columns ! 1) = Coltype String [Some 20]
     \<and> col_type (columns ! 2) = Coltype Integer []"
proof -
  define r1 where "r1 = \<lparr>row_name = ''amount'', row_typeid = 1700, row_nullable = True,
                         row_length = Some 8, row_format_type = Some ''NUMERIC(18,4)''\<rparr>"
  define r2 where "r2 = \<lparr>row_name = ''name'', row_typeid = 1043, row_nullable = False,
                         row_length = Some 20, row_format_type = Some ''CHARACTER VARYING(20)''\<rparr>"
  define r3 where "r3 = \<lparr>row_name = ''id'', row_typeid = 23, row_nullable = False,
                         row_length = Some 4, row_format_type = Some ''INTEGER''\<rparr>"
  have m1: "oid_datatype_map (row_typeid r1) = Some (Numeric, False)"
    by (simp add: r1_def oid_datatype_map_def oid_datatype_list_def)
  have m2: "oid_datatype_map (row_typeid r2) = Some (String, True)"
    by (simp add: r2_def oid_datatype_map_def oid_datatype_list_def)
  have m3: "oid_datatype_map (row_typeid r3) = Some (Integer, False)"
    by (simp add: r3_def oid_datatype_map_def oid_datatype_list_def)
  have nt: "numeric_text ''NUMERIC(18,4)'' ''NUMERIC('' ''18'' ''4'' []" by code_simp
  have lim: "int_max_str_digits example_runtime = 0
               \<or> length ''18'' \<le> int_max_str_digits example_runtime
                 \<and> length ''4'' \<le> int_max_str_digits example_runtime"
    by (simp add: example_runtime_def)
  have f1: "row_format_type r1 = Some ''NUMERIC(18,4)''" by (simp add: r1_def)
  have mapped: "\<forall>r\<in>set [r1, r2, r3]. oid_datatype_map (row_typeid r) \<noteq> None"
    by (simp add: m1 m2 m3 del: not_None_eq)
  have numeric: "\<forall>r\<in>set [r1, r2, r3]. row_typeid r = 1700 \<longrightarrow>
                    (\<exists>f h p s rest. row_format_type r = Some f \<and> numeric_text f h p s rest
                       \<and> (int_max_str_digits example_runtime = 0
                            \<or> length p \<le> int_max_str_digits example_runtime
                              \<and> length s \<le> int_max_str_digits example_runtime))"
  proof -
    have "\<exists>f h p s rest. row_format_type r1 = Some f \<and> numeric_text f h p s rest
                       \<and> (int_max_str_digits example_runtime = 0
                            \<or> length p \<le> int_max_str_digits example_runtime
                              \<and> length s \<le> int_max_str_digits example_runtime)"
      using f1 nt lim by blast
    moreover have "row_typeid r2 \<noteq> 1700" by (simp add: r2_def)
    moreover have "row_typeid r3 \<noteq> 1700" by (simp add: r3_def)
    ultimately show ?thesis by simp
  qed
  from get_columns_mapped_types [OF mapped numeric] obtain columns where
    g: "get_columns example_runtime [r1, r2, r3] = Inr columns"
    and len: "length columns = length [r1, r2, r3]"
    and each: "\<forall>i<length [r1, r2, r3].
              col_name (columns ! i) = row_name ([r1, r2, r3] ! i) \<and>
              col_nullable (columns ! i) = row_nullable ([r1, r2, r3] ! i) \<and>
              (\<forall>cls has_length.
                 oid_datatype_map (row_typeid ([r1, r2, r3] ! i)) = Some (cls, has_length) \<longrightarrow>
                 (if row_typeid ([r1, r2, r3] ! i) = 1700
                  then cls = Numeric \<and>
                       (\<forall>f h p s rest.
                          row_format_type ([r1, r2, r3] ! i) = Some f \<and> numeric_text f h p s rest \<longrightarrow>
                          col_type (columns ! i)
                            = Coltype Numeric [Some (int (decimal_value p)),
                                               Some (int (decimal_value s))])
                  else if has_length
                       then col_type (columns ! i) = Coltype cls [row_length ([r1, r2, r3] ! i)]
                       else col_type (columns ! i) = Coltype cls []))"
    by blast
  have d18: "int (decimal_value ''18'') = 18" by code_simp
  have d4: "int (decimal_value ''4'') = 4" by code_simp
  from each [rule_format, of 0] m1 f1 nt
  have "col_type (columns ! 0)
          = Coltype Numeric [Some (int (decimal_value ''18'')), Some (int (decimal_value ''4''))]"
    by (auto simp: r1_def)
  then have c0: "col_type (columns ! 0) = Coltype Numeric [Some 18, Some 4]"
    by (simp only: d18 d4)
  from each [rule_format, of 1] m2
  have c1: "col_type (columns ! 1) = Coltype String [Some 20]"
    by (auto simp: r2_def)
  from each [rule_format, of 2] m3
  have c2: "col_type (columns ! 2) = Coltype Integer []"
    by (auto simp: r3_def)
  from len have l: "length columns = 3" by simp
  from g l c0 c1 c2 show ?thesis
    unfolding r1_def r2_def r3_def by blast
qed


text \<open>A run of 4301 digits is beyond the default limit of \<open>int\<close>.\<close>

lemma py_int_digit_limit_example:
  "py_int example_runtime (replicate 4301 CHR ''1'')
     = Inl ValueError"
  by (simp add: py_int_def example_runtime_def)


section \<open>Properties of \<open>has_table\<close> and \<open>get_table_oid\<close>\<close>

lemma has_table_iff:
  "has_table conn t schema
     = (\<exists>x\<in>set (v_object_data conn). objname x = t \<and> dbname x = sql_database_name conn)"
  by (auto simp: has_table_def Let_def filter_empty_conv)

lemma get_table_oid_raises_iff:
  "(get_table_oid conn t schema = Inl e)
     = (e = NoSuchTableError t
        \<and> scalar (filter (\<lambda>r. (case schema of None \<Rightarrow> True | Some s \<Rightarrow> tbl_schema r = s)
                               \<and> tbl_tablename r = t) (v_table conn)) = None)"
  by (auto simp: get_table_oid_def Let_def split: option.splits)

text \<open>
  Claim C4 says that both lookups are scoped by database name and by schema. \<open>has_table\<close>
  does not use its schema argument: with the table \<open>ORDERS\<close> in schema \<open>ADMIN\<close> only,
  \<open>has_table\<close> for schema \<open>STAGE\<close> is true.
\<close>

theorem has_table_ignores_schema_counterexample:
  "has_table \<lparr>sql_database_name = ''SALES'',
              v_object_data = [\<lparr>objname = ''ORDERS'', dbname = ''SALES'', obj_schema = ''ADMIN''\<rparr>],
              v_table = []\<rparr> ''ORDERS'' (Some ''STAGE'') = True
   \<and> map obj_schema (v_object_data \<lparr>sql_database_name = ''SALES'',
              v_object_data = [\<lparr>objname = ''ORDERS'', dbname = ''SALES'', obj_schema = ''ADMIN''\<rparr>],
              v_table = []\<rparr>) = [''ADMIN'']
   \<and> ''STAGE'' \<noteq> ''ADMIN''"
  by (simp add: has_table_def)

text \<open>
  Claim C4, amended. \<open>has_table\<close> is true exactly when \<open>_v_object_data\<close> has an object of
  that name in the database of the connection, whatever the schema argument.
  \<open>get_table_oid\<close> filters \<open>_V_TABLE\<close> by the table name and, when a schema is given, by
  the schema; it does not read the database name of the connection. It raises only
  NoSuchTableError, carrying the table name, and exactly when the scalar of its query is
  \<open>None\<close>: always when no row matches, and, when the first column of the view is never NULL,
  only then.
\<close>

theorem table_lookups_scope:
  "has_table conn t schema
     = (\<exists>x\<in>set (v_object_data conn). objname x = t \<and> dbname x = sql_database_name conn)
   \<and> has_table conn t schema = has_table conn t None
   \<and> get_table_oid (conn\<lparr>sql_database_name := d\<rparr>) t schema = get_table_oid conn t schema
   \<and> (get_table_oid conn t schema = Inl (NoSuchTableError t))
       = (scalar (filter (\<lambda>r. (case schema of None \<Rightarrow> True | Some s \<Rightarrow> tbl_schema r = s)
                              \<and> tbl_tablename r = t) (v_table conn)) = None)
   \<and> (\<forall>e. get_table_oid conn t schema = Inl e \<longrightarrow> e = NoSuchTableError t)
   \<and> (filter (\<lambda>r. (case schema of None \<Rightarrow> True | Some s \<Rightarrow> tbl_schema r = s)
                   \<and> tbl_tablename r = t) (v_table conn) = []
        \<longrightarrow> get_table_oid conn t schema = Inl (NoSuchTableError t))
   \<and> ((\<forall>r\<in>set (v_table conn). tbl_first_column r \<noteq> None) \<longrightarrow>
        (get_table_oid conn t schema = Inl (NoSuchTableError t))
          = (filter (\<lambda>r. (case schema of None \<Rightarrow> True | Some s \<Rightarrow> tbl_schema r = s)
                        \<and> tbl_tablename r = t) (v_table conn) = []))"
proof (intro conjI)
  show "has_table conn t schema
     = (\<exists>x\<in>set (v_object_data conn). objname x = t \<and> dbname x = sql_database_name conn)"
    by (rule has_table_iff)
  show "has_table conn t schema = has_table conn t None"
    by (simp add: has_table_def)
  show "get_table_oid (conn\<lparr>sql_database_name := d\<rparr>) t schema = get_table_oid conn t schema"
    by (simp add: get_table_oid_def)
  show "(get_table_oid conn t schema = Inl (NoSuchTableError t))
       = (scalar (filter (\<lambda>r. (case schema of None \<Rightarrow> True | Some s \<Rightarrow> tbl_schema r = s)
                              \<and> tbl_tablename r = t) (v_table conn)) = None)"
    by (simp add: get_table_oid_raises_iff)
  show "\<forall>e. get_table_oid conn t schema = Inl e \<longrightarrow> e = NoSuchTableError t"
    by (simp add: get_table_oid_raises_iff)
  show "filter (\<lambda>r. (case schema of None \<Rightarrow> True | Some s \<Rightarrow> tbl_schema r = s)
                   \<and> tbl_tablename r = t) (v_table conn) = []
        \<longrightarrow> get_table_oid conn t schema = Inl (NoSuchTableError t)"
    by (simp add: get_table_oid_raises_iff scalar_def)
  show "(\<forall>r\<in>set (v_table conn). tbl_first_column r \<noteq> None) \<longrightarrow>
        (get_table_oid conn t schema = Inl (NoSuchTableError t))
          = (filter (\<lambda>r. (case schema of None \<Rightarrow> True | Some s \<Rightarrow> tbl_schema r = s)
                        \<and> tbl_tablename r = t) (v_table conn) = [])"
  proof
    assume nn: "\<forall>r\<in>set (v_table conn). tbl_first_column r \<noteq> None"
    let ?c = "filter (\<lambda>r. (case schema of None \<Rightarrow> True | Some s \<Rightarrow> tbl_schema r = s)
                        \<and> tbl_tablename r = t) (v_table conn)"
    have "(scalar ?c = None) = (?c = [])"
    proof (cases ?c)
      case Nil
      then show ?thesis by (simp add: scalar_def)
    next
      case (Cons r rs)
      then have "r \<in> set ?c" by simp
      then have "r \<in> set (v_table conn)" by simp
      with nn have "tbl_first_column r \<noteq> None" by blast
      with Cons show ?thesis by (simp add: scalar_def)
    qed
    then show "(get_table_oid conn t schema = Inl (NoSuchTableError t)) = (?c = [])"
      by (simp add: get_table_oid_raises_iff)
  qed
qed

theorem table_lookups_scope_witness:
  "has_table \<lparr>sql_database_name = ''SALES'',
              v_object_data = [\<lparr>objname = ''ORDERS'', dbname = ''SALES'', obj_schema = ''ADMIN''\<rparr>,
                               \<lparr>objname = ''ITEMS'', dbname = ''HR'', obj_schema = ''ADMIN''\<rparr>],
              v_table = [\<lparr>tbl_first_column = Some 4711, tbl_tablename = ''ORDERS'',
                          tbl_schema = ''ADMIN''\<rparr>]\<rparr> ''ORDERS'' (Some ''STAGE'')
   \<and> \<not> has_table \<lparr>sql_database_name = ''SALES'',
              v_object_data = [\<lparr>objname = ''ORDERS'', dbname = ''SALES'', obj_schema = ''ADMIN''\<rparr>,
                               \<lparr>objname = ''ITEMS'', dbname = ''HR'', obj_schema = ''ADMIN''\<rparr>],
              v_table = [\<lparr>tbl_first_column = Some 4711, tbl_tablename = ''ORDERS'',
                          tbl_schema = ''ADMIN''\<rparr>]\<rparr> ''ITEMS'' None
   \<and> get_table_oid \<lparr>sql_database_name = ''SALES'',
              v_object_data = [\<lparr>objname = ''ORDERS'', dbname = ''SALES'', obj_schema = ''ADMIN''\<rparr>,
                               \<lparr>objname = ''ITEMS'', dbname = ''HR'', obj_schema = ''ADMIN''\<rparr>],
              v_table = [\<lparr>tbl_first_column = Some 4711, tbl_tablename = ''ORDERS'',
                          tbl_schema = ''ADMIN''\<rparr>]\<rparr> ''ORDERS'' (Some ''STAGE'')
       = Inl (NoSuchTableError ''ORDERS'')
   \<and> get_table_oid \<lparr>sql_database_name = ''SALES'',
              v_object_data = [\<lparr>objname = ''ORDERS'', dbname = ''SALES'', obj_schema = ''ADMIN''\<rparr>,
                               \<lparr>objname = ''ITEMS'', dbname = ''HR'', obj_schema = ''ADMIN''\<rparr>],
              v_table = [\<lparr>tbl_first_column = Some 4711, tbl_tablename = ''ORDERS'',
                          tbl_schema = ''ADMIN''\<rparr>]\<rparr> ''ORDERS'' (Some ''ADMIN'')
       = Inr 4711"
proof -
  define conn where "conn = \<lparr>sql_database_name = ''SALES'',
              v_object_data = [\<lparr>objname = ''ORDERS'', dbname = ''SALES'', obj_schema = ''ADMIN''\<rparr>,
                               \<lparr>objname = ''ITEMS'', dbname = ''HR'', obj_schema = ''ADMIN''\<rparr>],
              v_table = [\<lparr>tbl_first_column = Some 4711, tbl_tablename = ''ORDERS'',
                          tbl_schema = ''ADMIN''\<rparr>]\<rparr>"
  have a: "has_table conn ''ORDERS'' (Some ''STAGE'')"
    using conjunct1 [OF table_lookups_scope [of conn "''ORDERS''" "Some ''STAGE''"]]
    by (simp add: conn_def)
  have b: "\<not> has_table conn ''ITEMS'' None"
    using conjunct1 [OF table_lookups_scope [of conn "''ITEMS''" None]]
    by (simp add: conn_def)
  have "filter (\<lambda>r. (case Some ''STAGE'' of None \<Rightarrow> True | Some s \<Rightarrow> tbl_schema r = s)
                   \<and> tbl_tablename r = ''ORDERS'') (v_table conn) = []"
    by (simp add: conn_def)
  with table_lookups_scope [of conn "''ORDERS''" "Some ''STAGE''"]
  have c: "get_table_oid conn ''ORDERS'' (Some ''STAGE'') = Inl (NoSuchTableError ''ORDERS'')"
    by blast
  have d: "get_table_oid conn ''ORDERS'' (Some ''ADMIN'') = Inr 4711"
    by (simp add: conn_def get_table_oid_def scalar_def)
  from a b c d show ?thesis unfolding conn_def by (intro conjI)
qed

end
